theory Spec2Isabelle
  imports Complex_Main
begin

section \<open>The visual workflow editor: data model\<close>

text \<open>
  The development follows the editor script (the file with \<^verbatim>\<open>findElement\<close>,
  \<^verbatim>\<open>generateSelector\<close>, \<^verbatim>\<open>class Ball\<close>, \<^verbatim>\<open>startPicker\<close>,
  \<^verbatim>\<open>addBall\<close>, \<^verbatim>\<open>removeBall\<close>, \<^verbatim>\<open>loadFromConfig\<close> and
  \<^verbatim>\<open>doSave\<close>). JavaScript \<^verbatim>\<open>undefined\<close>/\<^verbatim>\<open>null\<close> in a string-valued slot is
  \<open>None\<close>. Console output and CSS styling of nodes are presentation only and are left out,
  as are the toolbar, the export to JSON and the network request that follows the building
  of the workflow in \<^verbatim>\<open>doSave\<close>.
\<close>

subsection \<open>Numbers\<close>

text \<open>
  A number is the rational value of a finite double. The arithmetic of the transcoder (the
  product and the sum in \<^verbatim>\<open>loadFromConfig\<close>, the quotient in \<^verbatim>\<open>doSave\<close>) rounds
  as IEEE 754 binary64 does: to the nearest double, ties to the even mantissa, with gradual
  underflow (\<open>round_double\<close>). A result of magnitude \<open>2 ^ 1024\<close> or more stands for an
  infinity (\<open>finite_double\<close> excludes it). The only NaN that arises in the script comes
  from \<^verbatim>\<open>parseFloat\<close>, where it is \<open>None\<close>. The pixel geometry of the markers is
  taken exact.
\<close>

type_synonym number = rat

text \<open>\<open>bits n\<close> is the length of \<open>n\<close> in binary; \<open>pow2 e\<close> is \<open>2\<close> to the \<open>e\<close>.\<close>

function bits :: "int \<Rightarrow> int" where
  "bits n = (if n \<le> 0 then 0 else 1 + bits (n div 2))"
  by pat_completeness auto
termination
  by (relation "measure nat") auto

declare bits.simps [simp del]

definition pow2 :: "int \<Rightarrow> rat" where
  "pow2 e = (if 0 \<le> e then 2 ^ nat e else 1 / 2 ^ nat (- e))"

text \<open>
  For \<open>x \<noteq> 0\<close>, \<open>ilog2 x\<close> is the exponent \<open>k\<close> with \<open>2 ^ k \<le> |x| < 2 ^ (k + 1)\<close>: the
  difference of the bit lengths of numerator and denominator, or one less.
\<close>

definition ilog2 :: "rat \<Rightarrow> int" where
  "ilog2 x =
     (case quotient_of \<bar>x\<bar> of
        (a, b) \<Rightarrow>
          (let k = bits a - bits b
           in if pow2 k \<le> \<bar>x\<bar> then k else k - 1))"

definition roundEven :: "rat \<Rightarrow> int" where
  "roundEven y =
     (let f = \<lfloor>y\<rfloor>; r = y - of_int f
      in if r < 1 / 2 then f else if 1 / 2 < r then f + 1 else if even f then f else f + 1)"

text \<open>
  The mantissa has 53 bits, so the unit of the last place of \<open>x\<close> is \<open>2\<close> to the
  \<open>ilog2 x - 52\<close>, and never less than \<open>2\<close> to the \<open>- 1074\<close>.
\<close>

definition round_double :: "rat \<Rightarrow> number" where
  "round_double x =
     (if x = 0 then 0
      else (let e = max (ilog2 x - 52) (- 1074);
                m = roundEven (\<bar>x\<bar> / pow2 e)
            in sgn x * of_int m * pow2 e))"

definition fadd :: "number \<Rightarrow> number \<Rightarrow> number" where
  "fadd a b = round_double (a + b)"

definition fmul :: "number \<Rightarrow> number \<Rightarrow> number" where
  "fmul a b = round_double (a * b)"

definition fdiv :: "number \<Rightarrow> number \<Rightarrow> number" where
  "fdiv a b = round_double (a / b)"


subsection \<open>Values\<close>

datatype jsvalue = Null | Num number | Str string

subsection \<open>The page: elements, the selector engine, the browser\<close>

text \<open>
  An element carries what the script reads from it: its identity (\<open>node\<close>), \<^verbatim>\<open>tagName\<close>,
  \<^verbatim>\<open>id\<close>, \<^verbatim>\<open>className\<close> (\<open>None\<close> when it is not a string, as on SVG elements) and
  the attribute \<^verbatim>\<open>data-testid\<close> (\<open>None\<close> when \<^verbatim>\<open>getAttribute\<close> gives null).
  A document is the list of its elements in document order.
\<close>

record element =
  node :: nat
  tagName :: string
  el_id :: string
  className :: "string option"
  testid :: "string option"

record rect =
  rect_left :: number
  rect_top :: number
  rect_width :: number
  rect_height :: number

datatype dom_error = SyntaxError

text \<open>
  The functions of the browser that the script calls and that are not part of the
  repository are parameters: the CSS selector engine (\<open>compileSelector\<close>, \<open>None\<close> for a
  selector that does not parse), \<^verbatim>\<open>CSS.escape\<close>, \<^verbatim>\<open>String.prototype.toLowerCase\<close>,
  \<^verbatim>\<open>parseFloat\<close> on strings, \<^verbatim>\<open>getBoundingClientRect\<close>, the viewport size and the
  identity of \<^verbatim>\<open>document.body\<close>. \<open>protoMember k\<close> says that a plain object with no
  string under the name \<open>k\<close> still answers \<^verbatim>\<open>object[k]\<close> with a value that is truthy
  and not a string: a member of \<^verbatim>\<open>Object.prototype\<close> such as \<^verbatim>\<open>constructor\<close> or
  \<^verbatim>\<open>toString\<close>.
\<close>

record host =
  innerWidth :: number
  innerHeight :: number
  body_node :: nat
  compileSelector :: "string \<Rightarrow> (element \<Rightarrow> bool) option"
  cssEscape :: "string \<Rightarrow> string"
  toLowerCase :: "string \<Rightarrow> string"
  parseFloatStr :: "string \<Rightarrow> number option"
  getBoundingClientRect :: "element \<Rightarrow> rect"
  protoMember :: "string \<Rightarrow> bool"

text \<open>
  \<^verbatim>\<open>document.querySelectorAll\<close>: a SyntaxError for the empty selector and for one the
  engine rejects, otherwise the matching elements in document order.
\<close>

definition querySelectorAll :: "host \<Rightarrow> element list \<Rightarrow> string \<Rightarrow> dom_error + element list" where
  "querySelectorAll h doc sel =
     (if sel = [] then Inl SyntaxError
      else case compileSelector h sel of
             None \<Rightarrow> Inl SyntaxError
           | Some p \<Rightarrow> Inr (filter p doc))"

subsection \<open>String helpers of the JavaScript library\<close>

definition startsWith :: "string \<Rightarrow> string \<Rightarrow> bool" where
  "startsWith s p = (take (length p) s = p)"

fun split :: "char \<Rightarrow> string \<Rightarrow> string list" where
  "split c [] = [[]]"
| "split c (a # as) =
     (if a = c then [] # split c as
      else (case split c as of [] \<Rightarrow> [[a]] | w # ws \<Rightarrow> (a # w) # ws))"

fun join :: "string \<Rightarrow> string list \<Rightarrow> string" where
  "join sep [] = []"
| "join sep [w] = w"
| "join sep (w # v # ws) = w @ sep @ join sep (v # ws)"

text \<open>A value is truthy as a string when it is defined and not empty.\<close>

fun truthy :: "string option \<Rightarrow> string option" where
  "truthy None = None"
| "truthy (Some s) = (if s = [] then None else Some s)"

subsection \<open>Element locator and selector synthesis\<close>

definition findElement :: "host \<Rightarrow> element list \<Rightarrow> string option \<Rightarrow> element option" where
  "findElement h doc selector =
     (case truthy selector of
        None \<Rightarrow> None
      | Some sel \<Rightarrow>
          (case querySelectorAll h doc sel of
             Inl _ \<Rightarrow> None
           | Inr elements \<Rightarrow> if length elements > 0 then Some (last elements) else None))"

definition getElementCenter :: "host \<Rightarrow> element option \<Rightarrow> number \<times> number" where
  "getElementCenter h e =
     (case e of
        None \<Rightarrow> (innerWidth h / 2, innerHeight h / 2)
      | Some t \<Rightarrow>
          (let r = getBoundingClientRect h t
           in (rect_left r + rect_width r / 2, rect_top r + rect_height r / 2)))"

text \<open>
  \<^verbatim>\<open>generateSelector\<close> has no \<^verbatim>\<open>try\<close>: a SyntaxError of \<^verbatim>\<open>querySelectorAll\<close>
  leaves the function, so the result is a sum. \<open>uniqueSel\<close> is the test
  \<^verbatim>\<open>document.querySelectorAll(sel).length === 1\<close>.
\<close>

definition uniqueSel :: "host \<Rightarrow> element list \<Rightarrow> string \<Rightarrow> dom_error + bool" where
  "uniqueSel h doc sel =
     (case querySelectorAll h doc sel of
        Inl err \<Rightarrow> Inl err
      | Inr es \<Rightarrow> Inr (length es = 1))"

definition classCandidate :: "host \<Rightarrow> element \<Rightarrow> string option" where
  "classCandidate h e =
     (case className e of
        None \<Rightarrow> None
      | Some cn \<Rightarrow>
          if cn = [] then None
          else (let classes = take 2 (filter (\<lambda>c. c \<noteq> [] \<and> \<not> startsWith c ''wfe-'') (split CHR '' '' cn))
                in if length classes > 0
                   then Some (toLowerCase h (tagName e) @ ''.'' @ join ''.'' classes)
                   else None))"

definition selectorByClass :: "host \<Rightarrow> element list \<Rightarrow> element \<Rightarrow> dom_error + string" where
  "selectorByClass h doc e =
     (case classCandidate h e of
        None \<Rightarrow> Inr (toLowerCase h (tagName e))
      | Some sel \<Rightarrow>
          (case uniqueSel h doc sel of
             Inl err \<Rightarrow> Inl err
           | Inr True \<Rightarrow> Inr sel
           | Inr False \<Rightarrow> Inr (toLowerCase h (tagName e))))"

definition selectorByTestId :: "host \<Rightarrow> element list \<Rightarrow> element \<Rightarrow> dom_error + string" where
  "selectorByTestId h doc e =
     (case truthy (testid e) of
        None \<Rightarrow> selectorByClass h doc e
      | Some t \<Rightarrow>
          (let sel = ''[data-testid=\"'' @ t @ ''\"]''
           in case uniqueSel h doc sel of
                Inl err \<Rightarrow> Inl err
              | Inr True \<Rightarrow> Inr sel
              | Inr False \<Rightarrow> selectorByClass h doc e))"

definition generateSelector :: "host \<Rightarrow> element list \<Rightarrow> element option \<Rightarrow> dom_error + string" where
  "generateSelector h doc element =
     (case element of
        None \<Rightarrow> Inr ''body''
      | Some e \<Rightarrow>
          if node e = body_node h then Inr ''body''
          else if el_id e \<noteq> [] \<and> \<not> startsWith (el_id e) ''wfe-''
          then (let sel = ''#'' @ cssEscape h (el_id e)
                in case uniqueSel h doc sel of
                     Inl err \<Rightarrow> Inl err
                   | Inr True \<Rightarrow> Inr sel
                   | Inr False \<Rightarrow> selectorByTestId h doc e)
          else selectorByTestId h doc e)"

section \<open>Step entities and the editor state\<close>

datatype ball_type = CLICK | INPUT | READ

text \<open>
  The \<^verbatim>\<open>config\<close> bag of a ball. \<open>selector\<close> and \<open>targetKey\<close> are \<open>None\<close> when
  the JavaScript value is \<^verbatim>\<open>undefined\<close>. \<open>opts_config\<close> is the partial bag handed to
  \<^verbatim>\<open>addBall\<close> and spread over the defaults: \<open>None\<close> is an absent key, so
  \<open>c_selector = Some None\<close> is a key that is present and \<^verbatim>\<open>undefined\<close>.
\<close>

record ball_config =
  delay_ms :: number
  random_radius :: number
  cfg_text :: string
  selector :: "string option"
  targetKey :: "string option"

record opts_config =
  c_delay_ms :: "number option"
  c_random_radius :: "number option"
  c_text :: "string option"
  c_selector :: "string option option"
  c_targetKey :: "string option"

definition no_config :: opts_config where
  "no_config = \<lparr>c_delay_ms = None, c_random_radius = None, c_text = None,
                 c_selector = None, c_targetKey = None\<rparr>"

text \<open>
  A ball. \<open>bid\<close> is the identity of the object (the script compares balls by reference in
  \<^verbatim>\<open>indexOf\<close>; its \<^verbatim>\<open>id\<close> string is built from the clock and a random number);
  \<open>ball_element\<close> is the marker node that \<^verbatim>\<open>render\<close> creates.
\<close>

record ball =
  bid :: nat
  btype :: ball_type
  seq :: nat
  ball_x :: number
  ball_y :: number
  config :: ball_config
  ball_element :: element
  isDragging :: bool
  offset :: "number \<times> number"
  isWarning :: bool
  warningMessage :: string

record action_record =
  action :: string
  target :: string
  optional :: bool
  rvalue :: jsvalue

record site_config =
  selectors :: "(string \<rightharpoonup> string) option"
  workflow :: "action_record list option"

text \<open>
  Work the script hands to \<^verbatim>\<open>setTimeout\<close>: starting the picker for a new READ ball,
  and the one \<^verbatim>\<open>alert\<close> of \<^verbatim>\<open>loadFromConfig\<close>, with the number of warning balls
  and the text \<^verbatim>\<open>missingSelectors\<close> that it lists.
\<close>

datatype timer = StartPickerTimer nat | MissingElementsAlert nat string

text \<open>
  The editor state: the object \<^verbatim>\<open>state\<close>, the picker's variables
  \<^verbatim>\<open>pickOverlay\<close>, \<^verbatim>\<open>pickTip\<close>, \<^verbatim>\<open>highlighted\<close>, whether the document has
  the \<^verbatim>\<open>keydown\<close> listener \<^verbatim>\<open>onPickKey\<close>, the document itself, the counter that
  names new nodes, and the pending timers.
\<close>

record state =
  steps :: "ball list"
  siteConfig :: "site_config option"
  isPickingElement :: bool
  pickingCallback :: "nat option"
  isVisible :: bool
  pickOverlay :: "element option"
  pickTip :: "element option"
  highlighted :: "element option"
  keydownBound :: bool
  document :: "element list"
  fresh :: nat
  timers :: "timer list"

text \<open>
  \<^verbatim>\<open>el(tag, {className})\<close> creates a node (here with the tag name as \<^verbatim>\<open>tagName\<close>
  reports it); \<open>appendToBody\<close> is \<^verbatim>\<open>document.body.appendChild\<close>, which puts the node
  last in document order; \<open>removeNode\<close> is \<^verbatim>\<open>Element.remove\<close>.
\<close>

definition el :: "string \<Rightarrow> string \<Rightarrow> state \<Rightarrow> element \<times> state" where
  "el tag cls st =
     (\<lparr>node = fresh st, tagName = tag, el_id = [], className = Some cls, testid = None\<rparr>,
      st\<lparr>fresh := Suc (fresh st)\<rparr>)"

definition appendToBody :: "element \<Rightarrow> state \<Rightarrow> state" where
  "appendToBody e st = st\<lparr>document := document st @ [e]\<rparr>"

definition removeNode :: "element option \<Rightarrow> state \<Rightarrow> state" where
  "removeNode eo st =
     (case eo of
        None \<Rightarrow> st
      | Some e \<Rightarrow> st\<lparr>document := filter (\<lambda>x. node x \<noteq> node e) (document st)\<rparr>)"

subsection \<open>The class Ball\<close>

record ball_opts =
  o_type :: ball_type
  o_seq :: nat
  o_x :: "number option"
  o_y :: "number option"
  o_config :: opts_config

definition spread_config :: "nat \<Rightarrow> opts_config \<Rightarrow> ball_config" where
  "spread_config sq c =
     \<lparr>delay_ms = (case c_delay_ms c of None \<Rightarrow> (if sq = 1 then 0 else 1000) | Some d \<Rightarrow> d),
      random_radius = (case c_random_radius c of None \<Rightarrow> 10 | Some r \<Rightarrow> r),
      cfg_text = (case c_text c of None \<Rightarrow> [] | Some t \<Rightarrow> t),
      selector = (case c_selector c of None \<Rightarrow> Some [] | Some s \<Rightarrow> s),
      targetKey = c_targetKey c\<rparr>"

definition new_Ball :: "ball_opts \<Rightarrow> state \<Rightarrow> ball \<times> state" where
  "new_Ball opts st =
     (let (e, st1) = el ''DIV'' (''wfe-ball'' @ (if o_type opts = READ then '' read-type'' else [])) st
      in (\<lparr>bid = node e,
           btype = o_type opts,
           seq = o_seq opts,
           ball_x = (case o_x opts of None \<Rightarrow> 100 | Some v \<Rightarrow> v),
           ball_y = (case o_y opts of None \<Rightarrow> 100 | Some v \<Rightarrow> v),
           config = spread_config (o_seq opts) (o_config opts),
           ball_element = e,
           isDragging = False,
           offset = (0, 0),
           isWarning = False,
           warningMessage = []\<rparr>,
          appendToBody e st1))"

definition move :: "host \<Rightarrow> number \<Rightarrow> number \<Rightarrow> ball \<Rightarrow> ball" where
  "move h x y b =
     b\<lparr>ball_x := max 0 (min (innerWidth h - 28) x),
       ball_y := max 0 (min (innerHeight h - 28) y)\<rparr>"

definition updateSeq :: "nat \<Rightarrow> ball \<Rightarrow> ball" where
  "updateSeq n b =
     (let b1 = b\<lparr>seq := n\<rparr>
      in if n = 1 then b1\<lparr>config := (config b1)\<lparr>delay_ms := 0\<rparr>\<rparr> else b1)"

definition locateToElement :: "host \<Rightarrow> element list \<Rightarrow> ball \<Rightarrow> ball" where
  "locateToElement h doc b =
     (case findElement h doc (selector (config b)) of
        None \<Rightarrow> b
      | Some t \<Rightarrow>
          (let pos = getElementCenter h (Some t)
           in move h (fst pos - 14) (snd pos - 14) b))"

text \<open>
  \<^verbatim>\<open>classList.add\<close> and \<^verbatim>\<open>classList.remove\<close> on a node whose \<^verbatim>\<open>className\<close> is a
  string: the class attribute becomes the tokens, each once, joined by one space.
  \<open>updateNode\<close> applies a change to the node of the document with the given identity.
\<close>

definition classTokens :: "string \<Rightarrow> string list" where
  "classTokens cn = remdups (filter (\<lambda>t. t \<noteq> []) (split CHR '' '' cn))"

definition classList_add :: "string \<Rightarrow> element \<Rightarrow> element" where
  "classList_add tok e =
     (case className e of
        None \<Rightarrow> e
      | Some cn \<Rightarrow>
          e\<lparr>className := Some (join '' '' (if tok \<in> set (classTokens cn) then classTokens cn
                                              else classTokens cn @ [tok]))\<rparr>)"

definition classList_remove :: "string \<Rightarrow> element \<Rightarrow> element" where
  "classList_remove tok e =
     (case className e of
        None \<Rightarrow> e
      | Some cn \<Rightarrow> e\<lparr>className := Some (join '' '' (filter (\<lambda>t. t \<noteq> tok) (classTokens cn)))\<rparr>)"

definition updateNode :: "nat \<Rightarrow> (element \<Rightarrow> element) \<Rightarrow> state \<Rightarrow> state" where
  "updateNode n f st = st\<lparr>document := map (\<lambda>x. if node x = n then f x else x) (document st)\<rparr>"

text \<open>
  \<^verbatim>\<open>setWarning\<close> and \<^verbatim>\<open>clearWarning\<close> change the ball and the class of its marker,
  which is a node of the document.
\<close>

definition setWarning :: "string \<Rightarrow> ball \<Rightarrow> state \<Rightarrow> ball \<times> state" where
  "setWarning message b st =
     (b\<lparr>isWarning := True, warningMessage := message,
        ball_element := classList_add ''warning'' (ball_element b)\<rparr>,
      updateNode (node (ball_element b)) (classList_add ''warning'') st)"

definition clearWarning :: "ball \<Rightarrow> state \<Rightarrow> ball \<times> state" where
  "clearWarning b st =
     (updateSeq (seq b) (b\<lparr>isWarning := False, warningMessage := [],
                          ball_element := classList_remove ''warning'' (ball_element b)\<rparr>),
      updateNode (node (ball_element b)) (classList_remove ''warning'') st)"

definition destroy :: "ball \<Rightarrow> state \<Rightarrow> state" where
  "destroy b st = removeNode (Some (ball_element b)) st"

text \<open>The marker's size, from the style rule \<^verbatim>\<open>.wfe-ball { width: 32px; height: 32px }\<close>.\<close>

definition markerSize :: number where
  "markerSize = 32"

subsection \<open>The picker\<close>

text \<open>
  \<^verbatim>\<open>startPicker(ball)\<close> sets the flag and the callback (a closure over the ball, kept
  here as the ball's identity), creates the capture overlay and the tip, appends both to the
  body, puts the \<^verbatim>\<open>mousemove\<close> and \<^verbatim>\<open>click\<close> listeners on the new overlay and
  \<^verbatim>\<open>onPickKey\<close> on the document (registering the same function twice is one
  registration). \<^verbatim>\<open>endPicker\<close> removes the nodes the variables \<^verbatim>\<open>pickOverlay\<close> and
  \<^verbatim>\<open>pickTip\<close> hold at that moment; it does not reset these two variables.
  The handlers for hovering and clicking on the overlay and the context menu (which
  \<^verbatim>\<open>hideEditor\<close> also closes) are not part of the model.
\<close>

definition startPicker :: "nat \<Rightarrow> state \<Rightarrow> state" where
  "startPicker b st =
     (let st1 = st\<lparr>isPickingElement := True, pickingCallback := Some b\<rparr>;
          (ov, st2) = el ''DIV'' ''wfe-pick-overlay'' st1;
          (tip, st3) = el ''DIV'' ''wfe-pick-tip'' st2;
          st4 = st3\<lparr>pickOverlay := Some ov, pickTip := Some tip\<rparr>;
          st5 = appendToBody tip (appendToBody ov st4)
      in st5\<lparr>keydownBound := True\<rparr>)"

definition endPicker :: "state \<Rightarrow> state" where
  "endPicker st =
     (let st1 = st\<lparr>isPickingElement := False, pickingCallback := None, highlighted := None\<rparr>;
          st2 = removeNode (pickOverlay st1) st1;
          st3 = removeNode (pickTip st2) st2
      in st3\<lparr>keydownBound := False\<rparr>)"

definition onPickKey :: "string \<Rightarrow> state \<Rightarrow> state" where
  "onPickKey key st = (if keydownBound st \<and> key = ''Escape'' then endPicker st else st)"

definition hideEditor :: "state \<Rightarrow> state" where
  "hideEditor st = endPicker (st\<lparr>isVisible := False\<rparr>)"

text \<open>The capture overlays that are in the document.\<close>

definition overlays :: "state \<Rightarrow> element list" where
  "overlays st = filter (\<lambda>e. className e = Some ''wfe-pick-overlay'') (document st)"

subsection \<open>Managing the balls\<close>

text \<open>
  The prefix of the warning text, \<^verbatim>\<open>`...: ${config.selector}`\<close>: five CJK characters
  (``the element does not exist'') in UTF-8, a colon and a space.
\<close>

definition element_missing :: string where
  "element_missing =
     [CHR 0xE5, CHR 0x85, CHR 0x83, CHR 0xE7, CHR 0xB4, CHR 0xA0, CHR 0xE4, CHR 0xB8, CHR 0x8D,
      CHR 0xE5, CHR 0xAD, CHR 0x98, CHR 0xE5, CHR 0x9C, CHR 0xA8] @ '': ''"

definition addBall :: "host \<Rightarrow> ball_type \<Rightarrow> opts_config \<Rightarrow> state \<Rightarrow> ball \<times> state" where
  "addBall h type cfg st =
     (let sq = length (steps st) + 1;
          sel = truthy (case c_selector cfg of None \<Rightarrow> None | Some s \<Rightarrow> s);
          target = (case sel of None \<Rightarrow> None | Some s \<Rightarrow> findElement h (document st) (Some s));
          x = (case target of
                 None \<Rightarrow> 100 + (of_nat sq - 1) * 40
               | Some t \<Rightarrow> fst (getElementCenter h (Some t)) - 14);
          y = (case target of
                 None \<Rightarrow> innerHeight h / 2
               | Some t \<Rightarrow> snd (getElementCenter h (Some t)) - 14);
          elementNotFound = (case sel of None \<Rightarrow> None
                             | Some s \<Rightarrow> (case target of None \<Rightarrow> Some s | Some t \<Rightarrow> None));
          (b, st1) = new_Ball \<lparr>o_type = type, o_seq = sq, o_x = Some x, o_y = Some y,
                               o_config = cfg\<rparr> st;
          (b1, st1') = (case elementNotFound of
                          None \<Rightarrow> (b, st1)
                        | Some s \<Rightarrow> setWarning (element_missing @ s) b st1);
          st2 = st1'\<lparr>steps := steps st1' @ [b1]\<rparr>;
          st3 = (if type = READ \<and> sel = None
                 then st2\<lparr>timers := timers st2 @ [StartPickerTimer (bid b1)]\<rparr> else st2)
      in (b1, st3))"

fun indexOf :: "ball list \<Rightarrow> ball \<Rightarrow> nat option" where
  "indexOf [] b = None"
| "indexOf (c # cs) b = (if bid c = bid b then Some 0 else map_option Suc (indexOf cs b))"

definition renumber :: "ball list \<Rightarrow> ball list" where
  "renumber bs = map (\<lambda>(i, b). updateSeq (i + 1) b) (enumerate 0 bs)"

definition removeBall :: "ball \<Rightarrow> state \<Rightarrow> state" where
  "removeBall b st =
     (case indexOf (steps st) b of
        None \<Rightarrow> st
      | Some idx \<Rightarrow>
          (let st1 = destroy b st
           in st1\<lparr>steps := renumber (take idx (steps st1) @ drop (Suc idx) (steps st1))\<rparr>))"

definition clearAll :: "state \<Rightarrow> state" where
  "clearAll st = (foldl (\<lambda>s b. destroy b s) st (steps st))\<lparr>steps := []\<rparr>"

text \<open>A pending timer fires: the oldest one first.\<close>

definition fireTimer :: "state \<Rightarrow> state" where
  "fireTimer st =
     (case timers st of
        [] \<Rightarrow> st
      | t # ts \<Rightarrow>
          (case t of
             StartPickerTimer b \<Rightarrow> startPicker b (st\<lparr>timers := ts\<rparr>)
           | MissingElementsAlert n txt \<Rightarrow> st\<lparr>timers := ts\<rparr>))"

section \<open>The transcoder\<close>

subsection \<open>Decoding: loadFromConfig\<close>

text \<open>\<^verbatim>\<open>parseFloat(step.value) || 0\<close>.\<close>

definition parseFloat :: "host \<Rightarrow> jsvalue \<Rightarrow> number option" where
  "parseFloat h v = (case v of Null \<Rightarrow> None | Num r \<Rightarrow> Some r | Str s \<Rightarrow> parseFloatStr h s)"

definition waitValue :: "host \<Rightarrow> jsvalue \<Rightarrow> number" where
  "waitValue h v = (case parseFloat h v of None \<Rightarrow> 0 | Some r \<Rightarrow> r)"

text \<open>
  \<^verbatim>\<open>config.selectors[targetKey]\<close> is a property lookup on a plain object. The map
  \<open>sels\<close> holds the names under which the lookup gives a string; for any other name the
  lookup gives \<^verbatim>\<open>undefined\<close>, or, for a member of \<^verbatim>\<open>Object.prototype\<close>, a value that
  is not a string.
\<close>

datatype lookup = Undefined | Found string | NotAString

definition selectorLookup :: "host \<Rightarrow> (string \<rightharpoonup> string) \<Rightarrow> string \<Rightarrow> lookup" where
  "selectorLookup h sels k =
     (case sels k of
        Some s \<Rightarrow> Found s
      | None \<Rightarrow> if protoMember h k then NotAString else Undefined)"

datatype js_error = TypeError

text \<open>
  The three \<^verbatim>\<open>stepConfig\<close> objects of \<^verbatim>\<open>loadFromConfig\<close>, by action; \<open>sel\<close> is
  the selector that the lookup gave (\<open>None\<close> for \<^verbatim>\<open>undefined\<close>), \<open>key\<close> the target.
\<close>

definition stepConfig :: "string \<Rightarrow> number \<Rightarrow> string option \<Rightarrow> string \<Rightarrow> opts_config" where
  "stepConfig act pendingDelay sel key =
     (if act = ''CLICK''
      then \<lparr>c_delay_ms = Some pendingDelay, c_random_radius = Some 10, c_text = None,
            c_selector = Some sel, c_targetKey = Some key\<rparr>
      else if act = ''FILL_INPUT''
      then \<lparr>c_delay_ms = Some pendingDelay, c_random_radius = None, c_text = Some [],
            c_selector = Some sel, c_targetKey = Some key\<rparr>
      else \<lparr>c_delay_ms = Some pendingDelay, c_random_radius = None, c_text = None,
            c_selector = Some (Some (case truthy sel of None \<Rightarrow> [] | Some s \<Rightarrow> s)),
            c_targetKey = Some key\<rparr>)"

text \<open>
  The body of \<^verbatim>\<open>workflow.forEach\<close>, on the pair of \<^verbatim>\<open>pendingDelay\<close> and the state.
  With a selector that is truthy and not a string, \<^verbatim>\<open>addBall\<close> does not return:
  \<^verbatim>\<open>findElement\<close> gives null (the string form of the value is no selector), and
  \<^verbatim>\<open>Ball.render\<close>, called by the constructor, raises a TypeError at
  \<^verbatim>\<open>this.config.selector.slice(0, 30)\<close>, before the marker is created and before
  the ball is pushed: the state is as it was. That case is decided here, so that the
  configuration of \<^verbatim>\<open>addBall\<close> holds strings only.
\<close>

definition loadStep :: "host \<Rightarrow> (string \<rightharpoonup> string) \<Rightarrow> number \<times> state \<Rightarrow> action_record \<Rightarrow> js_error + number \<times> state" where
  "loadStep h sels acc step =
     (let pendingDelay = fst acc; st = snd acc in
      if action step = ''WAIT''
      then Inr (fadd pendingDelay (fmul (waitValue h (rvalue step)) 1000), st)
      else if action step \<notin> set [''CLICK'', ''FILL_INPUT'', ''STREAM_WAIT''] then Inr (pendingDelay, st)
      else
        (let targetKey = target step in
         case selectorLookup h sels targetKey of
           NotAString \<Rightarrow> Inl TypeError
         | Undefined \<Rightarrow> Inr (0, snd (addBall h (if action step = ''CLICK'' then CLICK
                                                  else if action step = ''FILL_INPUT'' then INPUT
                                                  else READ)
                 (stepConfig (action step) pendingDelay None targetKey) st))
         | Found s \<Rightarrow> Inr (0, snd (addBall h (if action step = ''CLICK'' then CLICK
                                                  else if action step = ''FILL_INPUT'' then INPUT
                                                  else READ)
                 (stepConfig (action step) pendingDelay (Some s) targetKey) st))))"

text \<open>
  The loop: an exception leaves \<^verbatim>\<open>forEach\<close> at once. The result is the exception, if
  any, with \<^verbatim>\<open>pendingDelay\<close> and the state at that moment.
\<close>

fun loadLoop :: "host \<Rightarrow> (string \<rightharpoonup> string) \<Rightarrow> number \<times> state \<Rightarrow> action_record list \<Rightarrow> js_error option \<times> number \<times> state" where
  "loadLoop h sels acc [] = (None, acc)"
| "loadLoop h sels acc (r # rs) =
     (case loadStep h sels acc r of
        Inl e \<Rightarrow> (Some e, acc)
      | Inr acc' \<Rightarrow> loadLoop h sels acc' rs)"

text \<open>
  One line of \<^verbatim>\<open>missingSelectors\<close>: a bullet (U+2022) and a space, the ball's
  \<^verbatim>\<open>targetKey\<close> or a two-character word for ``unknown'', a colon and the selector.
\<close>

definition bullet :: string where
  "bullet = [CHR 0xE2, CHR 0x80, CHR 0xA2] @ '' ''"

definition unknown_key :: string where
  "unknown_key = [CHR 0xE6, CHR 0x9C, CHR 0xAA, CHR 0xE7, CHR 0x9F, CHR 0xA5]"

definition missingLine :: "ball \<Rightarrow> string" where
  "missingLine b =
     bullet @ (case truthy (targetKey (config b)) of None \<Rightarrow> unknown_key | Some k \<Rightarrow> k)
       @ '': '' @ (case selector (config b) of None \<Rightarrow> ''undefined'' | Some s \<Rightarrow> s)"

text \<open>
  The summary at the end of \<^verbatim>\<open>loadFromConfig\<close>: if some ball carries a warning, one
  \<^verbatim>\<open>alert\<close> is scheduled, listing all of them.
\<close>

definition notifyMissing :: "state \<Rightarrow> state" where
  "notifyMissing st2 =
     (let warningBalls = filter isWarning (steps st2)
      in if length warningBalls > 0
         then st2\<lparr>timers := timers st2 @
                [MissingElementsAlert (length warningBalls)
                   (join [CHR 0x0A] (map missingLine warningBalls))]\<rparr>
         else st2)"

text \<open>
  The call \<^verbatim>\<open>loadFromConfig(config)\<close>: the exception that leaves it, if any, and the
  state it leaves. After an exception the summary is not reached.
\<close>

definition loadFromConfig_outcome :: "host \<Rightarrow> site_config option \<Rightarrow> state \<Rightarrow> js_error option \<times> state" where
  "loadFromConfig_outcome h cfg st =
     (case cfg of
        None \<Rightarrow> (None, st)
      | Some c \<Rightarrow>
          (case workflow c of
             None \<Rightarrow> (None, st)
           | Some work \<Rightarrow>
               (case selectors c of
                  None \<Rightarrow> (None, st)
                | Some sels \<Rightarrow>
                    (let st1 = (clearAll st)\<lparr>siteConfig := Some c\<rparr>;
                         res = loadLoop h sels (0, st1) work;
                         st2 = snd (snd res)
                     in case fst res of
                          Some e \<Rightarrow> (Some e, st2)
                        | None \<Rightarrow> (None, notifyMissing st2)))))"

text \<open>The state of the editor after the call, whether it returned or raised.\<close>

definition loadFromConfig :: "host \<Rightarrow> site_config option \<Rightarrow> state \<Rightarrow> state" where
  "loadFromConfig h cfg st = snd (loadFromConfig_outcome h cfg st)"

subsection \<open>Encoding: doSave\<close>

text \<open>The decimal form of an index, as string concatenation writes it.\<close>

definition digit :: "nat \<Rightarrow> char" where
  "digit d = ''0123456789'' ! d"

function numToString :: "nat \<Rightarrow> string" where
  "numToString n = (if n < 10 then [digit n] else numToString (n div 10) @ [digit (n mod 10)])"
  by pat_completeness auto
termination
  by (relation "measure id") auto

declare numToString.simps [simp del]

text \<open>
  The body of \<^verbatim>\<open>steps.forEach((ball, idx) => ...)\<close>, on the array \<^verbatim>\<open>newWorkflow\<close>.
\<close>

definition saveStep :: "action_record list \<Rightarrow> nat \<times> ball \<Rightarrow> action_record list" where
  "saveStep newWorkflow p =
     (let idx = fst p; ball = snd p;
          delayMs = delay_ms (config ball);
          wf1 = (if delayMs > 0
                 then newWorkflow @ [\<lparr>action = ''WAIT'', target = [], optional = False,
                                      rvalue = Num (fdiv delayMs 1000)\<rparr>]
                 else newWorkflow)
      in case btype ball of
           CLICK \<Rightarrow> wf1 @ [\<lparr>action = ''CLICK'',
                            target = (case truthy (targetKey (config ball)) of
                                        None \<Rightarrow> ''custom_click_'' @ numToString idx | Some k \<Rightarrow> k),
                            optional = False, rvalue = Null\<rparr>]
         | INPUT \<Rightarrow> wf1 @ [\<lparr>action = ''FILL_INPUT'',
                            target = (case truthy (targetKey (config ball)) of
                                        None \<Rightarrow> ''input_box'' | Some k \<Rightarrow> k),
                            optional = False,
                            rvalue = (if cfg_text (config ball) = [] then Null
                                      else Str (cfg_text (config ball)))\<rparr>]
         | READ \<Rightarrow> wf1 @ [\<lparr>action = ''STREAM_WAIT'',
                           target = (case truthy (targetKey (config ball)) of
                                       None \<Rightarrow> ''result_container'' | Some k \<Rightarrow> k),
                           optional = False, rvalue = Null\<rparr>])"

definition buildWorkflow :: "ball list \<Rightarrow> action_record list" where
  "buildWorkflow bs = foldl saveStep [] (enumerate 0 bs)"

text \<open>
  \<^verbatim>\<open>doSave\<close> up to the request: the two refusals, else the workflow that is sent.
\<close>

datatype save_error = NoSiteConfig | NoSteps

definition doSave :: "state \<Rightarrow> save_error + action_record list" where
  "doSave st =
     (case siteConfig st of
        None \<Rightarrow> Inl NoSiteConfig
      | Some c \<Rightarrow> if length (steps st) = 0 then Inl NoSteps else Inr (buildWorkflow (steps st)))"

section \<open>A small page and browser for concrete runs\<close>

text \<open>
  A selector engine that knows five selectors and rejects every other string, a browser
  with a 1000 by 800 viewport whose \<^verbatim>\<open>parseFloat\<close> reads the string \<^verbatim>\<open>0.5\<close>, and a
  page of four elements: the body (with the id
  \<^verbatim>\<open>app\<close>), a \<^verbatim>\<open>div#main\<close> and two \<^verbatim>\<open>p.msg\<close>.
\<close>

definition demo_engine :: "string \<Rightarrow> (element \<Rightarrow> bool) option" where
  "demo_engine s =
     (if s = ''#main'' then Some (\<lambda>e. el_id e = ''main'')
      else if s = ''#app'' then Some (\<lambda>e. el_id e = ''app'')
      else if s = ''#gone'' then Some (\<lambda>e. el_id e = ''gone'')
      else if s = ''.msg'' then Some (\<lambda>e. className e = Some ''msg'')
      else if s = ''body'' then Some (\<lambda>e. tagName e = ''BODY'')
      else if s = ''.warning''
        then Some (\<lambda>e. case className e of None \<Rightarrow> False
                         | Some cn \<Rightarrow> ''warning'' \<in> set (classTokens cn))
      else None)"

definition demo_host :: host where
  "demo_host =
     \<lparr>innerWidth = 1000, innerHeight = 800, body_node = 0,
      compileSelector = demo_engine, cssEscape = (\<lambda>s. s), toLowerCase = (\<lambda>s. s),
      parseFloatStr = (\<lambda>s. if s = ''0.5'' then Some (1 / 2) else None),
      getBoundingClientRect =
        (\<lambda>e. \<lparr>rect_left = 0, rect_top = 0, rect_width = 0, rect_height = 0\<rparr>),
      protoMember = (\<lambda>k. k \<in> set [''constructor'', ''toString'', ''valueOf'', ''hasOwnProperty'',
                                     ''isPrototypeOf'', ''propertyIsEnumerable'',
                                     ''toLocaleString'', ''__proto__''])\<rparr>"

definition elem :: "nat \<Rightarrow> string \<Rightarrow> string \<Rightarrow> string \<Rightarrow> element" where
  "elem n tag i cls = \<lparr>node = n, tagName = tag, el_id = i, className = Some cls, testid = None\<rparr>"

definition demo_page :: "element list" where
  "demo_page = [elem 0 ''BODY'' ''app'' [], elem 1 ''DIV'' ''main'' [],
                elem 2 ''P'' [] ''msg'', elem 3 ''P'' [] ''msg'']"

text \<open>The state of the script when it is loaded on a page, before \<^verbatim>\<open>init\<close>.\<close>

definition init_state :: "element list \<Rightarrow> nat \<Rightarrow> state" where
  "init_state page n =
     \<lparr>steps = [], siteConfig = None, isPickingElement = False, pickingCallback = None,
      isVisible = True, pickOverlay = None, pickTip = None, highlighted = None,
      keydownBound = False, document = page, fresh = n, timers = []\<rparr>"

definition rec :: "string \<Rightarrow> string \<Rightarrow> bool \<Rightarrow> jsvalue \<Rightarrow> action_record" where
  "rec a t opt v = \<lparr>action = a, target = t, optional = opt, rvalue = v\<rparr>"

definition demo_selectors :: "string \<rightharpoonup> string" where
  "demo_selectors = [''a'' \<mapsto> ''#main'', ''b'' \<mapsto> ''.msg'', ''c'' \<mapsto> ''#gone'']"

section \<open>Predicates used by the properties\<close>

text \<open>
  The sequence numbers of a collection are \<open>1, 2, ..., N\<close> in collection order
  (\<open>seqs_ok\<close>), hence as a set exactly \<open>{1..N}\<close> without duplicates (\<open>seq_set_ok\<close>);
  the first ball has no delay (\<open>first_no_delay\<close>).
\<close>

definition seqs_ok :: "ball list \<Rightarrow> bool" where
  "seqs_ok bs = (map seq bs = [1..<Suc (length bs)])"

definition seq_set_ok :: "ball list \<Rightarrow> bool" where
  "seq_set_ok bs = (set (map seq bs) = {1..length bs} \<and> distinct (map seq bs))"

definition first_no_delay :: "ball list \<Rightarrow> bool" where
  "first_no_delay bs = (case bs of [] \<Rightarrow> True | b # cs \<Rightarrow> delay_ms (config b) = 0)"

definition seq_delay :: "ball \<Rightarrow> nat \<times> number" where
  "seq_delay b = (seq b, delay_ms (config b))"

text \<open>Decoding a workflow with the selector map of the small page, on the fresh state.\<close>

definition demo_load :: "action_record list \<Rightarrow> state" where
  "demo_load L =
     loadFromConfig demo_host (Some \<lparr>selectors = Some demo_selectors, workflow = Some L\<rparr>)
       (init_state demo_page 4)"

text \<open>
  Three balls on the small page, decoded from a workflow in which the second and the
  third step wait.
\<close>

definition demo_three :: state where
  "demo_three =
     demo_load [rec ''CLICK'' ''a'' False Null,
                rec ''WAIT'' [] False (Num (1 / 2)), rec ''FILL_INPUT'' ''b'' False Null,
                rec ''WAIT'' [] False (Num 2), rec ''STREAM_WAIT'' ''b'' False Null]"

text \<open>One ball on the small page, decoded from a workflow that opens with a wait.\<close>

definition demo_waiting :: state where
  "demo_waiting = demo_load [rec ''WAIT'' [] False (Num (1 / 2)), rec ''CLICK'' ''a'' False Null]"


definition is_entity_action :: "string \<Rightarrow> bool" where
  "is_entity_action a = (a \<in> set [''CLICK'', ''FILL_INPUT'', ''STREAM_WAIT''])"

text \<open>
  \<open>lookup_ok\<close>: the lookup of the record's target gives a string or \<^verbatim>\<open>undefined\<close>, so
  that \<^verbatim>\<open>Ball.render\<close> does not raise. \<open>lookups_ok\<close>: this holds for every
  Click/FillInput/StreamWait record of the list, so that the decode runs to its end.
\<close>

definition lookup_ok :: "host \<Rightarrow> (string \<rightharpoonup> string) \<Rightarrow> action_record \<Rightarrow> bool" where
  "lookup_ok h sels r = (selectorLookup h sels (target r) \<noteq> NotAString)"











text \<open>
  The records of a workflow that are not Wait records (each ball contributes exactly one),
  and the record that \<open>saveStep\<close> pushes last for a ball. \<open>fromDigits\<close> reads a decimal
  numeral back; it serves to show that \<open>numToString\<close> is injective.
\<close>

definition entityRecords :: "action_record list \<Rightarrow> action_record list" where
  "entityRecords rs = filter (\<lambda>r. action r \<noteq> ''WAIT'') rs"

definition ownRecord :: "nat \<times> ball \<Rightarrow> action_record" where
  "ownRecord p = last (saveStep [] p)"

definition digitVal :: "char \<Rightarrow> nat" where
  "digitVal c = length (takeWhile (\<lambda>x. x \<noteq> c) ''0123456789'')"

definition fromDigits :: "string \<Rightarrow> nat" where
  "fromDigits s = foldl (\<lambda>a c. 10 * a + digitVal c) 0 s"

text \<open>A saved collection with one decoded ball and two Click balls added by hand.\<close>

definition demo_clicks :: "ball list" where
  "demo_clicks =
     steps (snd (addBall demo_host CLICK no_config (snd (addBall demo_host CLICK no_config
       (demo_load [rec ''CLICK'' ''a'' False Null])))))"










section \<open>Properties\<close>

text \<open>
  C5. \<^verbatim>\<open>findElement\<close> gives nothing for a missing or empty reference; when the reference
  matches more than one live element it gives the last match in document order; and a
  reference that \<^verbatim>\<open>querySelectorAll\<close> rejects with a SyntaxError gives nothing (the
  function has no error result at all, the exception is caught).
\<close>

theorem findElement_policy:
  "findElement h doc None = None
   \<and> findElement h doc (Some []) = None
   \<and> (querySelectorAll h doc ref = Inr es \<and> 1 < length es
        \<longrightarrow> findElement h doc (Some ref) = Some (last es))
   \<and> (querySelectorAll h doc ref = Inl err \<longrightarrow> findElement h doc (Some ref) = None)"
  by (auto simp: findElement_def querySelectorAll_def split: if_splits option.splits)

theorem findElement_policy_witness:
  "querySelectorAll demo_host demo_page ''.msg'' = Inr [elem 2 ''P'' [] ''msg'', elem 3 ''P'' [] ''msg'']
   \<and> findElement demo_host demo_page (Some ''.msg'') = Some (elem 3 ''P'' [] ''msg'')
   \<and> querySelectorAll demo_host demo_page ''p..msg'' = Inl SyntaxError
   \<and> findElement demo_host demo_page (Some ''p..msg'') = None"
proof -
  have q: "querySelectorAll demo_host demo_page ''.msg''
             = Inr [elem 2 ''P'' [] ''msg'', elem 3 ''P'' [] ''msg'']"
    by (simp add: querySelectorAll_def demo_host_def demo_engine_def demo_page_def elem_def)
  have e: "querySelectorAll demo_host demo_page ''p..msg'' = Inl SyntaxError"
    by (simp add: querySelectorAll_def demo_host_def demo_engine_def)
  from findElement_policy [of demo_host demo_page "''.msg''"
      "[elem 2 ''P'' [] ''msg'', elem 3 ''P'' [] ''msg'']"] q
  have a: "findElement demo_host demo_page (Some ''.msg'') = Some (elem 3 ''P'' [] ''msg'')"
    by simp
  from findElement_policy [of demo_host demo_page "''p..msg''" _ SyntaxError] e
  have b: "findElement demo_host demo_page (Some ''p..msg'') = None"
    by simp
  from q a e b show ?thesis by simp
qed

subsection \<open>Facts about addBall\<close>

lemma addBall_steps:
  "steps (snd (addBall h ty cfg st)) = steps st @ [fst (addBall h ty cfg st)]"
  by (simp add: addBall_def new_Ball_def el_def appendToBody_def setWarning_def updateNode_def
      Let_def split: prod.splits option.splits)


lemma addBall_seq: "seq (fst (addBall h ty cfg st)) = length (steps st) + 1"
  by (simp add: addBall_def new_Ball_def el_def appendToBody_def setWarning_def updateNode_def
      Let_def split: prod.splits option.splits)

lemma addBall_config:
  "config (fst (addBall h ty cfg st)) = spread_config (length (steps st) + 1) cfg"
  by (simp add: addBall_def new_Ball_def el_def appendToBody_def setWarning_def updateNode_def
      Let_def split: prod.splits option.splits)

subsection \<open>The sequence numbers\<close>

lemma seqs_ok_set: "seqs_ok bs \<Longrightarrow> seq_set_ok bs"
  unfolding seqs_ok_def seq_set_ok_def
  by (metis atLeastLessThanSuc_atLeastAtMost distinct_upt set_upt)

lemma seq_updateSeq: "seq (updateSeq n b) = n"
  by (simp add: updateSeq_def Let_def)

lemma map_seq_renumber_from:
  "map (\<lambda>p. seq (updateSeq (fst p + 1) (snd p))) (enumerate n bs) = [Suc n..<Suc (n + length bs)]"
proof (induction bs arbitrary: n)
  case Nil
  show ?case by simp
next
  case (Cons b bs)
  have "[Suc n..<Suc (n + length (b # bs))] = Suc n # [Suc (Suc n)..<Suc (Suc n + length bs)]"
    by (simp add: upt_conv_Cons del: upt_Suc)
  with Cons.IH [of "Suc n"] show ?case by (simp add: seq_updateSeq del: upt_Suc)
qed

lemma seqs_ok_renumber: "seqs_ok (renumber bs)"
  using map_seq_renumber_from [of 0 bs]
  by (simp add: seqs_ok_def renumber_def case_prod_beta comp_def del: upt_Suc)

lemma first_no_delay_renumber: "first_no_delay (renumber bs)"
  by (cases bs) (simp_all add: first_no_delay_def renumber_def updateSeq_def Let_def)

lemma steps_destroy: "steps (destroy b st) = steps st"
  by (simp add: destroy_def removeNode_def)

lemma seqs_ok_add: "seqs_ok (steps st) \<Longrightarrow> seqs_ok (steps (snd (addBall h ty cfg st)))"
  by (simp add: seqs_ok_def addBall_steps addBall_seq)

text \<open>
  C2, as the script has it. After any \<^verbatim>\<open>addBall\<close> and any \<^verbatim>\<open>removeBall\<close> on a
  collection numbered \<open>1..N\<close>, the sequence numbers are again \<open>1..N\<close> in order, so as a
  set exactly \<open>{1..N}\<close> without duplicates. After a \<^verbatim>\<open>removeBall\<close> that finds its ball
  the first ball has \<^verbatim>\<open>delay_ms = 0\<close>, and so it has after any removal when it had before.
  An \<^verbatim>\<open>addBall\<close> leaves the balls that were there as they were, so on a collection
  that is not empty the first ball keeps its \<^verbatim>\<open>delay_ms\<close>, zero or not; a ball added
  to the empty collection gets the \<^verbatim>\<open>delay_ms\<close> of the configuration it is created
  with, and 0 when that gives none.
\<close>

theorem sequence_invariant:
  assumes "seqs_ok (steps st)"
  shows "seqs_ok (steps (snd (addBall h ty cfg st)))
       \<and> seq_set_ok (steps (snd (addBall h ty cfg st)))
       \<and> seqs_ok (steps (removeBall b st))
       \<and> seq_set_ok (steps (removeBall b st))
       \<and> (indexOf (steps st) b \<noteq> None \<or> first_no_delay (steps st)
            \<longrightarrow> first_no_delay (steps (removeBall b st)))
       \<and> (first_no_delay (steps st) \<and> steps st \<noteq> []
            \<longrightarrow> first_no_delay (steps (snd (addBall h ty cfg st))))
       \<and> (steps st = []
            \<longrightarrow> map seq_delay (steps (snd (addBall h ty cfg st)))
                  = [(1, case c_delay_ms cfg of None \<Rightarrow> 0 | Some d \<Rightarrow> d)])
       \<and> take (length (steps st)) (steps (snd (addBall h ty cfg st))) = steps st
       \<and> (steps st \<noteq> []
            \<longrightarrow> delay_ms (config (hd (steps (snd (addBall h ty cfg st)))))
                  = delay_ms (config (hd (steps st))))"
proof -
  have a: "seqs_ok (steps (snd (addBall h ty cfg st)))"
    using assms by (rule seqs_ok_add)
  have r: "seqs_ok (steps (removeBall b st))"
    using assms
    by (simp add: removeBall_def steps_destroy seqs_ok_renumber Let_def split: option.splits)
  have d: "indexOf (steps st) b \<noteq> None \<or> first_no_delay (steps st)
            \<longrightarrow> first_no_delay (steps (removeBall b st))"
    by (auto simp: removeBall_def steps_destroy first_no_delay_renumber Let_def
        split: option.splits)
  have e: "first_no_delay (steps st) \<and> steps st \<noteq> []
            \<longrightarrow> first_no_delay (steps (snd (addBall h ty cfg st)))"
    by (cases "steps st") (auto simp: first_no_delay_def addBall_steps)
  have f: "steps st = []
            \<longrightarrow> map seq_delay (steps (snd (addBall h ty cfg st)))
                  = [(1, case c_delay_ms cfg of None \<Rightarrow> 0 | Some d \<Rightarrow> d)]"
    by (auto simp: addBall_steps seq_delay_def addBall_seq addBall_config spread_config_def
        split: option.splits)
  have g: "take (length (steps st)) (steps (snd (addBall h ty cfg st))) = steps st"
    by (simp add: addBall_steps)
  have k: "steps st \<noteq> []
            \<longrightarrow> delay_ms (config (hd (steps (snd (addBall h ty cfg st)))))
                  = delay_ms (config (hd (steps st)))"
    by (simp add: addBall_steps)
  from a r d e f g k seqs_ok_set show ?thesis by blast
qed

theorem sequence_invariant_witness:
  "seqs_ok (steps demo_three)
   \<and> map seq_delay (steps demo_three) = [(1, 0), (2, 500), (3, 2000)]
   \<and> indexOf (steps demo_three) (hd (steps demo_three)) \<noteq> None
   \<and> first_no_delay (steps demo_three) \<and> steps demo_three \<noteq> []
   \<and> map seq_delay (steps (removeBall (hd (steps demo_three)) demo_three)) = [(1, 0), (2, 2000)]
   \<and> seq_set_ok (steps (removeBall (hd (steps demo_three)) demo_three))
   \<and> first_no_delay (steps (removeBall (hd (steps demo_three)) demo_three))
   \<and> seq_set_ok (steps (snd (addBall demo_host CLICK no_config demo_three)))
   \<and> first_no_delay (steps (snd (addBall demo_host CLICK no_config demo_three)))
   \<and> steps (init_state demo_page 4) = []
   \<and> map seq_delay (steps (snd (addBall demo_host CLICK no_config (init_state demo_page 4))))
        = [(1, 0)]
   \<and> seqs_ok (steps demo_waiting) \<and> steps demo_waiting \<noteq> []
   \<and> delay_ms (config (hd (steps demo_waiting))) = 500
   \<and> delay_ms (config (hd (steps (snd (addBall demo_host CLICK no_config demo_waiting))))) = 500"
proof -
  have ok: "seqs_ok (steps demo_three)" by code_simp
  have ok0: "seqs_ok (steps (init_state demo_page 4))" by code_simp
  have ok1: "seqs_ok (steps demo_waiting)" by code_simp
  have facts: "map seq_delay (steps demo_three) = [(1, 0), (2, 500), (3, 2000)]"
    "indexOf (steps demo_three) (hd (steps demo_three)) \<noteq> None"
    "first_no_delay (steps demo_three)" "steps demo_three \<noteq> []"
    "map seq_delay (steps (removeBall (hd (steps demo_three)) demo_three)) = [(1, 0), (2, 2000)]"
    "steps (init_state demo_page 4) = []" "c_delay_ms no_config = None"
    "steps demo_waiting \<noteq> []" "delay_ms (config (hd (steps demo_waiting))) = 500"
    by code_simp+
  from sequence_invariant [OF ok, of demo_host CLICK no_config "hd (steps demo_three)"]
    sequence_invariant [OF ok0, of demo_host CLICK no_config "hd (steps demo_three)"]
    sequence_invariant [OF ok1, of demo_host CLICK no_config "hd (steps demo_three)"]
    ok ok1 facts
  show ?thesis by simp
qed

text \<open>
  C2, as the specification states it, fails where decoding meets a workflow that opens
  with a wait: the only ball has sequence number 1 and keeps the 500 ms.
\<close>

theorem first_delay_counterexample:
  "map seq_delay (steps (demo_load [rec ''WAIT'' [] False (Num (1 / 2)),
                                    rec ''CLICK'' ''a'' False Null])) = [(1, 500)]
   \<and> \<not> first_no_delay (steps (demo_load [rec ''WAIT'' [] False (Num (1 / 2)),
                                           rec ''CLICK'' ''a'' False Null]))"
  by code_simp

subsection \<open>Moving a marker\<close>

text \<open>
  C3. \<^verbatim>\<open>move\<close> clamps against the viewport less 28, while the marker is 32 wide and
  high: on the 1000 by 800 viewport a move to (2000, 2000) stores (972, 772), and the
  marker, drawn from there, ends at 1004 and 804, beyond the viewport.
\<close>

theorem move_beyond_viewport:
  "ball_x (move demo_host 2000 2000 b) = 972
   \<and> ball_y (move demo_host 2000 2000 b) = 772
   \<and> ball_x (move demo_host 2000 2000 b) > innerWidth demo_host - markerSize
   \<and> ball_y (move demo_host 2000 2000 b) > innerHeight demo_host - markerSize"
  by (simp add: move_def demo_host_def markerSize_def)

text \<open>What \<^verbatim>\<open>move\<close> does guarantee: never negative, and within the viewport less 28.\<close>

lemma move_range:
  "0 \<le> ball_x (move h x y b) \<and> 0 \<le> ball_y (move h x y b)
   \<and> (28 \<le> innerWidth h \<longrightarrow> ball_x (move h x y b) \<le> innerWidth h - 28)
   \<and> (28 \<le> innerHeight h \<longrightarrow> ball_y (move h x y b) \<le> innerHeight h - 28)"
  by (simp add: move_def)

subsection \<open>The picker\<close>

text \<open>\<^verbatim>\<open>startPicker\<close> removes nothing: it adds one overlay to those in the document.\<close>

lemma startPicker_overlays:
  "map node (overlays (startPicker b st)) = map node (overlays st) @ [fresh st]"
  by (simp add: startPicker_def overlays_def el_def appendToBody_def Let_def)

text \<open>
  C4. Two READ balls are added through the toolbar or \<^verbatim>\<open>WorkflowEditor.addRead\<close>; each
  schedules \<^verbatim>\<open>startPicker\<close>. When both timers have fired, two capture overlays are in
  the document; \<^verbatim>\<open>endPicker\<close> (Escape, a click, or hiding the editor) then removes the
  second only, and the first stays in the document with the picker switched off.
\<close>

theorem picker_two_overlays:
  "map node (overlays (fireTimer (fireTimer (snd (addBall demo_host READ no_config
       (snd (addBall demo_host READ no_config (init_state demo_page 4)))))))) = [6, 8]
   \<and> map node (overlays (hideEditor (fireTimer (fireTimer (snd (addBall demo_host READ no_config
       (snd (addBall demo_host READ no_config (init_state demo_page 4))))))))) = [6]
   \<and> \<not> isPickingElement (hideEditor (fireTimer (fireTimer (snd (addBall demo_host READ no_config
       (snd (addBall demo_host READ no_config (init_state demo_page 4))))))))"
  by code_simp

subsection \<open>The round trip of decode and encode\<close>

lemma saveStep_append: "saveStep acc p = acc @ saveStep [] p"
  by (simp add: saveStep_def Let_def split: ball_type.splits)

lemma foldl_saveStep: "foldl saveStep acc ps = acc @ concat (map (saveStep []) ps)"
proof (induction ps arbitrary: acc)
  case Nil
  show ?case by simp
next
  case (Cons p ps)
  have "foldl saveStep acc (p # ps) = foldl saveStep (saveStep acc p) ps" by simp
  also have "\<dots> = saveStep acc p @ concat (map (saveStep []) ps)" by (rule Cons.IH)
  also have "\<dots> = acc @ saveStep [] p @ concat (map (saveStep []) ps)"
    using saveStep_append [of acc p] by simp
  finally show ?case by simp
qed

lemma buildWorkflow_concat: "buildWorkflow bs = concat (map (saveStep []) (enumerate 0 bs))"
  by (simp add: buildWorkflow_def foldl_saveStep)

lemma loadStep_wait:
  "action r = ''WAIT'' \<Longrightarrow>
   loadStep h sels (p, st) r = Inr (fadd p (fmul (waitValue h (rvalue r)) 1000), st)"
  by (simp add: loadStep_def)


lemma loadStep_raises:
  "is_entity_action (action r) \<Longrightarrow> \<not> lookup_ok h sels r \<Longrightarrow>
   loadStep h sels (p, st) r = Inl TypeError"
  by (auto simp: loadStep_def is_entity_action_def lookup_ok_def Let_def)












subsection \<open>The optional flag\<close>

lemma saveStep_optional: "r \<in> set (saveStep [] p) \<Longrightarrow> \<not> optional r"
  by (auto simp: saveStep_def Let_def split: ball_type.splits if_splits)

lemma buildWorkflow_optional: "r \<in> set (buildWorkflow bs) \<Longrightarrow> \<not> optional r"
  by (auto simp: buildWorkflow_concat dest: saveStep_optional)

text \<open>
  C9, as the script has it. Every record that \<^verbatim>\<open>doSave\<close> emits has
  \<^verbatim>\<open>optional: false\<close>, whatever the decoded list said: the flag is neither read nor
  kept, so it comes back unchanged only where it was false.
\<close>

theorem encode_optional_false:
  "\<forall>r \<in> set (buildWorkflow (steps (loadFromConfig h cfg st))). optional r = False"
  by (simp add: buildWorkflow_optional)

theorem encode_optional_false_witness:
  "rec ''CLICK'' ''a'' False Null
     \<in> set (buildWorkflow (steps (loadFromConfig demo_host
          (Some \<lparr>selectors = Some demo_selectors,
                 workflow = Some [rec ''CLICK'' ''a'' True Null]\<rparr>) (init_state demo_page 4))))
   \<and> optional (rec ''CLICK'' ''a'' False Null) = False"
proof -
  have m: "rec ''CLICK'' ''a'' False Null
     \<in> set (buildWorkflow (steps (loadFromConfig demo_host
          (Some \<lparr>selectors = Some demo_selectors,
                 workflow = Some [rec ''CLICK'' ''a'' True Null]\<rparr>) (init_state demo_page 4))))"
    by code_simp
  from encode_optional_false [of demo_host
      "Some \<lparr>selectors = Some demo_selectors, workflow = Some [rec ''CLICK'' ''a'' True Null]\<rparr>"
      "init_state demo_page 4"] m
  show ?thesis by blast
qed

text \<open>
  C9, as the specification states it, fails: a record with \<^verbatim>\<open>optional: true\<close> comes
  back with \<^verbatim>\<open>optional: false\<close>.
\<close>

theorem optional_counterexample:
  "map optional [rec ''CLICK'' ''a'' True Null] = [True]
   \<and> map optional (buildWorkflow (steps (demo_load [rec ''CLICK'' ''a'' True Null]))) = [False]"
  by code_simp

subsection \<open>Wait records at the end\<close>

lemma last_saveStep:
  "saveStep [] p \<noteq> [] \<and> action (last (saveStep [] p)) \<noteq> ''WAIT''"
  by (simp add: saveStep_def Let_def split: ball_type.splits)

lemma buildWorkflow_snoc:
  "buildWorkflow (bs @ [b]) = buildWorkflow bs @ saveStep [] (length bs, b)"
  by (simp add: buildWorkflow_concat enumerate_append_eq)

lemma buildWorkflow_last:
  "bs \<noteq> [] \<Longrightarrow> buildWorkflow bs \<noteq> [] \<and> action (last (buildWorkflow bs)) \<noteq> ''WAIT''"
proof (induction bs rule: rev_induct)
  case Nil
  then show ?case by simp
next
  case (snoc b bs)
  show ?case
    using last_saveStep [of "(length bs, b)"] by (simp add: buildWorkflow_snoc)
qed

lemma loadLoop_waits:
  "\<forall>r \<in> set W. action r = ''WAIT'' \<Longrightarrow>
   fst (loadLoop h sels acc W) = None \<and> snd (snd (loadLoop h sels acc W)) = snd acc"
proof (induction W arbitrary: acc)
  case Nil
  show ?case by simp
next
  case (Cons r W)
  then have w: "action r = ''WAIT''" and rest: "\<forall>r \<in> set W. action r = ''WAIT''"
    by simp_all
  obtain p st where acc: "acc = (p, st)" by (cases acc)
  from Cons.IH [OF rest, of "(fadd p (fmul (waitValue h (rvalue r)) 1000), st)"] w
  show ?case by (simp add: acc loadStep_wait)
qed

lemma loadLoop_trailing:
  "\<forall>r \<in> set W. action r = ''WAIT'' \<Longrightarrow>
   fst (loadLoop h sels acc (P @ W)) = fst (loadLoop h sels acc P)
   \<and> snd (snd (loadLoop h sels acc (P @ W))) = snd (snd (loadLoop h sels acc P))"
proof (induction P arbitrary: acc)
  case Nil
  then show ?case using loadLoop_waits [of W h sels acc] by simp
next
  case (Cons r P)
  show ?case
  proof (cases "loadStep h sels acc r")
    case (Inl e)
    then show ?thesis by simp
  next
    case (Inr acc')
    with Cons.IH [OF Cons.prems, of acc'] show ?thesis by simp
  qed
qed

lemma addBall_siteConfig_update:
  "addBall h ty cfg (st\<lparr>siteConfig := x\<rparr>)
     = (fst (addBall h ty cfg st), (snd (addBall h ty cfg st))\<lparr>siteConfig := x\<rparr>)"
  by (simp add: addBall_def new_Ball_def el_def appendToBody_def setWarning_def updateNode_def
      Let_def split: prod.splits option.splits)

lemma loadStep_siteConfig_update:
  "loadStep h sels (p, st\<lparr>siteConfig := x\<rparr>) r
     = (case loadStep h sels (p, st) r of
          Inl e \<Rightarrow> Inl e
        | Inr a \<Rightarrow> Inr (fst a, (snd a)\<lparr>siteConfig := x\<rparr>))"
  by (simp add: loadStep_def Let_def addBall_siteConfig_update split: lookup.splits)

lemma loadLoop_siteConfig_update:
  "loadLoop h sels (p, st\<lparr>siteConfig := x\<rparr>) L
     = (fst (loadLoop h sels (p, st) L), fst (snd (loadLoop h sels (p, st) L)),
        (snd (snd (loadLoop h sels (p, st) L)))\<lparr>siteConfig := x\<rparr>)"
proof (induction L arbitrary: p st)
  case Nil
  show ?case by simp
next
  case (Cons r L)
  show ?case
  proof (cases "loadStep h sels (p, st) r")
    case (Inl e)
    then show ?thesis by (simp add: loadStep_siteConfig_update)
  next
    case (Inr a)
    obtain p' st' where a: "a = (p', st')" by (cases a)
    with Inr Cons.IH [of p' st'] show ?thesis by (simp add: loadStep_siteConfig_update)
  qed
qed

lemma notifyMissing_siteConfig_update:
  "notifyMissing (st\<lparr>siteConfig := x\<rparr>) = (notifyMissing st)\<lparr>siteConfig := x\<rparr>"
  by (simp add: notifyMissing_def Let_def)

lemma loadFromConfig_Some:
  "loadFromConfig h (Some \<lparr>selectors = Some sels, workflow = Some L\<rparr>) st
     = (case fst (loadLoop h sels (0, clearAll st) L) of
          Some e \<Rightarrow> snd (snd (loadLoop h sels (0, clearAll st) L))
        | None \<Rightarrow> notifyMissing (snd (snd (loadLoop h sels (0, clearAll st) L))))
       \<lparr>siteConfig := Some \<lparr>selectors = Some sels, workflow = Some L\<rparr>\<rparr>"
  by (simp add: loadFromConfig_def loadFromConfig_outcome_def Let_def loadLoop_siteConfig_update
      notifyMissing_siteConfig_update split: option.splits)

lemma siteConfig_loadFromConfig:
  "siteConfig (loadFromConfig h (Some \<lparr>selectors = Some sels, workflow = Some L\<rparr>) st)
     = Some \<lparr>selectors = Some sels, workflow = Some L\<rparr>"
  by (simp add: loadFromConfig_Some)

lemma doSave_last:
  "siteConfig st = Some c \<Longrightarrow>
   doSave st = Inl NoSteps
   \<or> (doSave st = Inr (buildWorkflow (steps st)) \<and> buildWorkflow (steps st) \<noteq> []
       \<and> action (last (buildWorkflow (steps st))) \<noteq> ''WAIT'')"
  using buildWorkflow_last [of "steps st"] by (cases "steps st = []") (simp_all add: doSave_def)

text \<open>
  C10. When the action list ends in Wait records, \<^verbatim>\<open>loadFromConfig\<close> leaves the editor
  in the state it reaches without them (but for the stored \<^verbatim>\<open>siteConfig\<close>): no ball is
  made for them and their accumulated delay is kept nowhere. \<^verbatim>\<open>doSave\<close> then either
  refuses (no steps) or sends the workflow of the list without them, which ends in a record
  that is not a Wait.
\<close>

theorem trailing_waits_dropped:
  assumes "\<forall>r \<in> set W. action r = ''WAIT''"
  shows "loadFromConfig h (Some \<lparr>selectors = Some sels, workflow = Some (P @ W)\<rparr>) st
           = (loadFromConfig h (Some \<lparr>selectors = Some sels, workflow = Some P\<rparr>) st)
               \<lparr>siteConfig := Some \<lparr>selectors = Some sels, workflow = Some (P @ W)\<rparr>\<rparr>
       \<and> (doSave (loadFromConfig h (Some \<lparr>selectors = Some sels, workflow = Some (P @ W)\<rparr>) st)
             = Inl NoSteps
          \<or> (doSave (loadFromConfig h (Some \<lparr>selectors = Some sels, workflow = Some (P @ W)\<rparr>) st)
               = Inr (buildWorkflow (steps (loadFromConfig h
                        (Some \<lparr>selectors = Some sels, workflow = Some P\<rparr>) st)))
             \<and> action (last (buildWorkflow (steps (loadFromConfig h
                        (Some \<lparr>selectors = Some sels, workflow = Some P\<rparr>) st)))) \<noteq> ''WAIT''))"
proof -
  have eq: "loadFromConfig h (Some \<lparr>selectors = Some sels, workflow = Some (P @ W)\<rparr>) st
           = (loadFromConfig h (Some \<lparr>selectors = Some sels, workflow = Some P\<rparr>) st)
               \<lparr>siteConfig := Some \<lparr>selectors = Some sels, workflow = Some (P @ W)\<rparr>\<rparr>"
    using loadLoop_trailing [OF assms, of h sels "(0, clearAll st)" P]
    by (simp add: loadFromConfig_Some split: option.splits)
  then have st: "steps (loadFromConfig h (Some \<lparr>selectors = Some sels, workflow = Some (P @ W)\<rparr>) st)
           = steps (loadFromConfig h (Some \<lparr>selectors = Some sels, workflow = Some P\<rparr>) st)"
    by simp
  from doSave_last [OF siteConfig_loadFromConfig [of h sels "P @ W" st]] eq show ?thesis
    unfolding st by blast
qed

theorem trailing_waits_dropped_witness:
  "map action [rec ''WAIT'' [] False (Num 1), rec ''WAIT'' [] False (Num 2)] = [''WAIT'', ''WAIT'']
   \<and> steps (demo_load ([rec ''CLICK'' ''a'' False Null]
                         @ [rec ''WAIT'' [] False (Num 1), rec ''WAIT'' [] False (Num 2)]))
       = steps (demo_load [rec ''CLICK'' ''a'' False Null])
   \<and> buildWorkflow (steps (demo_load ([rec ''CLICK'' ''a'' False Null]
                         @ [rec ''WAIT'' [] False (Num 1), rec ''WAIT'' [] False (Num 2)])))
       = [rec ''CLICK'' ''a'' False Null]"
proof -
  have w: "\<forall>r \<in> set [rec ''WAIT'' [] False (Num 1), rec ''WAIT'' [] False (Num 2)].
             action r = ''WAIT''"
    by (simp add: rec_def)
  have b: "buildWorkflow (steps (demo_load [rec ''CLICK'' ''a'' False Null]))
             = [rec ''CLICK'' ''a'' False Null]"
    by code_simp
  from trailing_waits_dropped [OF w, of demo_host demo_selectors "[rec ''CLICK'' ''a'' False Null]"
      "init_state demo_page 4"]
  have "steps (demo_load ([rec ''CLICK'' ''a'' False Null]
                         @ [rec ''WAIT'' [] False (Num 1), rec ''WAIT'' [] False (Num 2)]))
       = steps (demo_load [rec ''CLICK'' ''a'' False Null])"
    unfolding demo_load_def by (elim conjE) simp
  with b show ?thesis by (simp add: rec_def)
qed

subsection \<open>The targets that doSave writes\<close>

lemma digitVal_digit_all: "\<forall>d \<in> set [0..<10]. digitVal (digit d) = d"
  by code_simp

lemma digitVal_digit: "d < 10 \<Longrightarrow> digitVal (digit d) = d"
  using digitVal_digit_all by simp

lemma fromDigits_snoc: "fromDigits (s @ [c]) = 10 * fromDigits s + digitVal c"
  by (simp add: fromDigits_def)

lemma fromDigits_numToString: "fromDigits (numToString n) = n"
proof (induction n rule: numToString.induct)
  case (1 n)
  show ?case
  proof (cases "n < 10")
    case True
    then have "numToString n = [digit n]" by (subst numToString.simps) simp
    with True show ?thesis by (simp add: fromDigits_def digitVal_digit)
  next
    case False
    then have "numToString n = numToString (n div 10) @ [digit (n mod 10)]"
      by (subst numToString.simps) simp
    with False "1.IH" show ?thesis
      by (simp add: fromDigits_snoc digitVal_digit)
  qed
qed

lemma numToString_inj: "numToString i = numToString j \<Longrightarrow> i = j"
  by (metis fromDigits_numToString)

lemma entity_of_saveStep: "entityRecords (saveStep [] p) = [ownRecord p]"
  by (simp add: entityRecords_def ownRecord_def saveStep_def Let_def split: ball_type.splits)

lemma entityRecords_buildWorkflow:
  "entityRecords (buildWorkflow bs) = map ownRecord (enumerate 0 bs)"
proof -
  have "entityRecords (concat (map (saveStep []) ps)) = map ownRecord ps" for ps
  proof (induction ps)
    case Nil
    show ?case by (simp add: entityRecords_def)
  next
    case (Cons p ps)
    then show ?case
      using entity_of_saveStep [of p] by (simp add: entityRecords_def)
  qed
  then show ?thesis by (simp add: buildWorkflow_concat)
qed

lemma target_ownRecord:
  "target (ownRecord (i, b)) =
     (case truthy (targetKey (config b)) of
        Some k \<Rightarrow> k
      | None \<Rightarrow> (case btype b of
                   CLICK \<Rightarrow> ''custom_click_'' @ numToString i
                 | INPUT \<Rightarrow> ''input_box''
                 | READ \<Rightarrow> ''result_container''))"
  by (simp add: ownRecord_def saveStep_def Let_def split: ball_type.splits option.splits)

lemma nth_entityRecords:
  "i < length bs \<Longrightarrow> entityRecords (buildWorkflow bs) ! i = ownRecord (i, bs ! i)"
  by (simp add: entityRecords_buildWorkflow nth_enumerate_eq)

text \<open>
  C7, as the script has it. The workflow that \<^verbatim>\<open>doSave\<close> builds has one record that
  is not a Wait for each ball, in order. Its target is the ball's \<^verbatim>\<open>targetKey\<close> when
  that is known (defined and not empty); otherwise it is \<^verbatim>\<open>custom_click_\<close> followed by
  the ball's index for a Click ball, the fixed key \<^verbatim>\<open>input_box\<close> for an Input ball and
  the fixed key \<^verbatim>\<open>result_container\<close> for a Read ball. The placeholder of a Click ball
  differs from the placeholder of every other ball.
\<close>

theorem encode_targets:
  "length (entityRecords (buildWorkflow bs)) = length bs
   \<and> (i < length bs \<longrightarrow>
        target (entityRecords (buildWorkflow bs) ! i) =
          (case truthy (targetKey (config (bs ! i))) of
             Some k \<Rightarrow> k
           | None \<Rightarrow> (case btype (bs ! i) of
                        CLICK \<Rightarrow> ''custom_click_'' @ numToString i
                      | INPUT \<Rightarrow> ''input_box''
                      | READ \<Rightarrow> ''result_container'')))
   \<and> (i < length bs \<and> j < length bs \<and> i \<noteq> j \<and> btype (bs ! i) = CLICK
        \<and> truthy (targetKey (config (bs ! i))) = None
        \<and> truthy (targetKey (config (bs ! j))) = None
        \<longrightarrow> target (entityRecords (buildWorkflow bs) ! i)
              \<noteq> target (entityRecords (buildWorkflow bs) ! j))"
proof -
  have len: "length (entityRecords (buildWorkflow bs)) = length bs"
    by (simp add: entityRecords_buildWorkflow)
  have tgt: "i < length bs \<longrightarrow>
        target (entityRecords (buildWorkflow bs) ! i) =
          (case truthy (targetKey (config (bs ! i))) of
             Some k \<Rightarrow> k
           | None \<Rightarrow> (case btype (bs ! i) of
                        CLICK \<Rightarrow> ''custom_click_'' @ numToString i
                      | INPUT \<Rightarrow> ''input_box''
                      | READ \<Rightarrow> ''result_container''))"
    by (simp add: nth_entityRecords target_ownRecord)
  have uniq: "i < length bs \<and> j < length bs \<and> i \<noteq> j \<and> btype (bs ! i) = CLICK
        \<and> truthy (targetKey (config (bs ! i))) = None
        \<and> truthy (targetKey (config (bs ! j))) = None
        \<longrightarrow> target (entityRecords (buildWorkflow bs) ! i)
              \<noteq> target (entityRecords (buildWorkflow bs) ! j)"
    by (cases "btype (bs ! j)")
       (auto simp: nth_entityRecords target_ownRecord dest: numToString_inj)
  from len tgt uniq show ?thesis by blast
qed

theorem encode_targets_witness:
  "1 < length demo_clicks \<and> 2 < length demo_clicks \<and> (1::nat) \<noteq> 2
   \<and> btype (demo_clicks ! 1) = CLICK
   \<and> truthy (targetKey (config (demo_clicks ! 1))) = None
   \<and> truthy (targetKey (config (demo_clicks ! 2))) = None
   \<and> map target (entityRecords (buildWorkflow demo_clicks))
        = [''a'', ''custom_click_1'', ''custom_click_2'']
   \<and> target (entityRecords (buildWorkflow demo_clicks) ! 1)
        \<noteq> target (entityRecords (buildWorkflow demo_clicks) ! 2)"
proof -
  have facts: "1 < length demo_clicks" "2 < length demo_clicks"
    "btype (demo_clicks ! 1) = CLICK"
    "truthy (targetKey (config (demo_clicks ! 1))) = None"
    "truthy (targetKey (config (demo_clicks ! 2))) = None"
    "map target (entityRecords (buildWorkflow demo_clicks))
        = [''a'', ''custom_click_1'', ''custom_click_2'']"
    by code_simp+
  have ne: "(1::nat) \<noteq> 2" by simp
  have "target (entityRecords (buildWorkflow demo_clicks) ! 1)
        \<noteq> target (entityRecords (buildWorkflow demo_clicks) ! 2)"
    using encode_targets [of demo_clicks 1 2] facts(1-5) ne by blast
  with facts ne show ?thesis by blast
qed

text \<open>
  C7, as the specification states it, fails: two Input balls added by hand are both saved
  under \<^verbatim>\<open>input_box\<close>.
\<close>

theorem placeholder_counterexample:
  "map target (entityRecords (buildWorkflow (steps (snd (addBall demo_host INPUT no_config
      (snd (addBall demo_host INPUT no_config (init_state demo_page 4))))))))
     = [''input_box'', ''input_box'']"
  by code_simp

subsection \<open>Selector synthesis\<close>

text \<open>
  C6, as the script has it. For \<^verbatim>\<open>document.body\<close>, \<^verbatim>\<open>generateSelector\<close> returns
  \<^verbatim>\<open>body\<close>, whatever its id. Let an element other than \<^verbatim>\<open>document.body\<close> have an
  id that is not empty and does not start with \<^verbatim>\<open>wfe-\<close>, let the browser read the
  selector \<^verbatim>\<open>'#' + CSS.escape(id)\<close> as ``the elements with this id'', and let the
  element be the only one on the page with this id. Then \<^verbatim>\<open>generateSelector\<close> returns
  that selector and \<^verbatim>\<open>findElement\<close> of it is exactly that element.
\<close>

theorem id_selector_roundtrip:
  "(node e = body_node h \<longrightarrow> generateSelector h doc (Some e) = Inr ''body'')
   \<and> (node e \<noteq> body_node h \<and> el_id e \<noteq> [] \<and> \<not> startsWith (el_id e) ''wfe-''
        \<and> compileSelector h (''#'' @ cssEscape h (el_id e)) = Some p
        \<and> (\<forall>x \<in> set doc. p x = (el_id x = el_id e))
        \<and> filter (\<lambda>x. el_id x = el_id e) doc = [e]
      \<longrightarrow> generateSelector h doc (Some e) = Inr (''#'' @ cssEscape h (el_id e))
          \<and> findElement h doc (Some (''#'' @ cssEscape h (el_id e))) = Some e)"
proof (intro conjI impI)
  assume "node e = body_node h"
  then show "generateSelector h doc (Some e) = Inr ''body''"
    by (simp add: generateSelector_def)
next
  assume a: "node e \<noteq> body_node h \<and> el_id e \<noteq> [] \<and> \<not> startsWith (el_id e) ''wfe-''
        \<and> compileSelector h (''#'' @ cssEscape h (el_id e)) = Some p
        \<and> (\<forall>x \<in> set doc. p x = (el_id x = el_id e))
        \<and> filter (\<lambda>x. el_id x = el_id e) doc = [e]"
  then have "filter p doc = filter (\<lambda>x. el_id x = el_id e) doc"
    by (intro filter_cong) simp_all
  with a have q: "querySelectorAll h doc (''#'' @ cssEscape h (el_id e)) = Inr [e]"
    by (simp add: querySelectorAll_def)
  then show "generateSelector h doc (Some e) = Inr (''#'' @ cssEscape h (el_id e))"
    using a by (simp add: generateSelector_def uniqueSel_def Let_def)
  show "findElement h doc (Some (''#'' @ cssEscape h (el_id e))) = Some e"
    using q by (simp add: findElement_def)
qed

theorem id_selector_roundtrip_witness:
  "node (elem 0 ''BODY'' ''app'' []) = body_node demo_host
   \<and> generateSelector demo_host demo_page (Some (elem 0 ''BODY'' ''app'' [])) = Inr ''body''
   \<and> node (elem 1 ''DIV'' ''main'' []) \<noteq> body_node demo_host
   \<and> el_id (elem 1 ''DIV'' ''main'' []) = ''main''
   \<and> \<not> startsWith ''main'' ''wfe-''
   \<and> querySelectorAll demo_host demo_page ''#main'' = Inr [elem 1 ''DIV'' ''main'' []]
   \<and> generateSelector demo_host demo_page (Some (elem 1 ''DIV'' ''main'' [])) = Inr ''#main''
   \<and> findElement demo_host demo_page (Some ''#main'') = Some (elem 1 ''DIV'' ''main'' [])"
proof -
  have b: "node (elem 0 ''BODY'' ''app'' []) = body_node demo_host"
    by (simp add: elem_def demo_host_def)
  have a: "node (elem 1 ''DIV'' ''main'' []) \<noteq> body_node demo_host"
    "el_id (elem 1 ''DIV'' ''main'' []) \<noteq> []" "el_id (elem 1 ''DIV'' ''main'' []) = ''main''"
    "\<not> startsWith (el_id (elem 1 ''DIV'' ''main'' [])) ''wfe-''"
    "\<not> startsWith ''main'' ''wfe-''"
    by (simp_all add: elem_def demo_host_def startsWith_def)
  have c: "compileSelector demo_host (''#'' @ cssEscape demo_host (el_id (elem 1 ''DIV'' ''main'' [])))
             = Some (\<lambda>x. el_id x = ''main'')"
    by (simp add: demo_host_def demo_engine_def elem_def)
  have s: "\<forall>x \<in> set demo_page. (el_id x = ''main'') = (el_id x = el_id (elem 1 ''DIV'' ''main'' []))"
    by (simp add: elem_def)
  have u: "filter (\<lambda>x. el_id x = el_id (elem 1 ''DIV'' ''main'' [])) demo_page
             = [elem 1 ''DIV'' ''main'' []]"
    by (simp add: demo_page_def elem_def)
  have q: "querySelectorAll demo_host demo_page ''#main'' = Inr [elem 1 ''DIV'' ''main'' []]"
    by (simp add: querySelectorAll_def demo_host_def demo_engine_def demo_page_def elem_def)
  have e: "''#'' @ cssEscape demo_host (el_id (elem 1 ''DIV'' ''main'' [])) = ''#main''"
    by (simp add: demo_host_def elem_def)
  have "generateSelector demo_host demo_page (Some (elem 0 ''BODY'' ''app'' [])) = Inr ''body''"
    using id_selector_roundtrip [where e = "elem 0 ''BODY'' ''app'' []" and h = demo_host
        and doc = demo_page and p = "\<lambda>x. el_id x = ''main''"] b
    by blast
  moreover have "generateSelector demo_host demo_page (Some (elem 1 ''DIV'' ''main'' []))
                   = Inr (''#'' @ cssEscape demo_host (el_id (elem 1 ''DIV'' ''main'' [])))
      \<and> findElement demo_host demo_page
            (Some (''#'' @ cssEscape demo_host (el_id (elem 1 ''DIV'' ''main'' []))))
          = Some (elem 1 ''DIV'' ''main'' [])"
    using id_selector_roundtrip [where e = "elem 1 ''DIV'' ''main'' []" and h = demo_host
        and doc = demo_page and p = "\<lambda>x. el_id x = ''main''"] a(1,2,4) c s u
    by blast
  ultimately show ?thesis
    using a b q unfolding e by simp
qed

text \<open>
  C6, as the specification states it, fails for the body: with an id of its own, unique
  on the page, \<^verbatim>\<open>generateSelector\<close> still answers \<^verbatim>\<open>body\<close>.
\<close>

theorem body_id_counterexample:
  "el_id (elem 0 ''BODY'' ''app'' []) = ''app''
   \<and> \<not> startsWith ''app'' ''wfe-''
   \<and> querySelectorAll demo_host demo_page ''#app'' = Inr [elem 0 ''BODY'' ''app'' []]
   \<and> generateSelector demo_host demo_page (Some (elem 0 ''BODY'' ''app'' [])) = Inr ''body''"
  by (simp add: generateSelector_def querySelectorAll_def demo_host_def demo_engine_def
      demo_page_def elem_def startsWith_def)

subsection \<open>Warnings for references that are not found\<close>


























end
